theory Spec2Isabelle
  imports Complex_Main "HOL-Library.Word"
begin

section \<open>Text, JSON values and the library functions the probes rely on\<close>

text \<open>
  A Python \<open>str\<close> is a sequence of Unicode code points, so text is a list of naturals
  here; \<open>ascii\<close> embeds the ASCII literals of the source. Bytes are 8-bit words.
\<close>

type_synonym ustr = "nat list"

definition ascii :: "string \<Rightarrow> ustr" where
  "ascii s = map of_char s"

text \<open>
  The body of a request is an untyped JSON object (\<open>dict[str, Any]\<close>); the envelopes the
  handlers return are dictionaries of the same kind of value, kept in the order in which
  the source writes their keys. A float is represented by the rational it denotes: the
  probes only hand the timeout on to the libraries.
\<close>

datatype json =
    JNull
  | JBool bool
  | JInt int
  | JFloat rat
  | JStr ustr
  | JList "json list"
  | JDict "(ustr \<times> json) list"

type_synonym payload = "ustr \<rightharpoonup> json"
type_synonym envelope = "(ustr \<times> json) list"

datatype verify_mode = CERT_NONE | CERT_OPTIONAL | CERT_REQUIRED

record tls_ctx =
  check_hostname :: bool
  verify_mode :: verify_mode

text \<open>
  What the program takes from Python and its libraries without defining it:
  the upper-casing of the code points beyond ASCII, the coercions pydantic applies to a
  value that is not already of the declared type, UTF-8 decoding that drops what it
  cannot decode, and the context \<open>ssl.create_default_context()\<close> returns.
\<close>

record pylib =
  upper_table :: "nat \<Rightarrow> nat list"
  lax_str :: "json \<Rightarrow> ustr option"
  lax_int :: "json \<Rightarrow> int option"
  lax_float :: "json \<Rightarrow> rat option"
  lax_bool :: "json \<Rightarrow> bool option"
  utf8_ignore :: "8 word list \<Rightarrow> ustr"
  create_default_context :: tls_ctx

text \<open>\<open>str.upper\<close> maps code point by code point; on ASCII only a-z change.\<close>

definition upper_cp :: "pylib \<Rightarrow> nat \<Rightarrow> nat list" where
  "upper_cp lib c =
     (if 97 \<le> c \<and> c \<le> 122 then [c - 32]
      else if c < 128 then [c]
      else upper_table lib c)"

definition upper :: "pylib \<Rightarrow> ustr \<Rightarrow> ustr" where
  "upper lib s = concat (map (upper_cp lib) s)"

text \<open>Two texts that differ only in the case of their ASCII letters.\<close>

definition same_letter :: "nat \<Rightarrow> nat \<Rightarrow> bool" where
  "same_letter c d =
     (c = d \<or> (97 \<le> d \<and> d \<le> 122 \<and> c + 32 = d) \<or> (65 \<le> d \<and> d \<le> 90 \<and> c = d + 32))"

definition case_variant :: "ustr \<Rightarrow> ustr \<Rightarrow> bool" where
  "case_variant s w = list_all2 same_letter s w"

text \<open>The decimal text of an integer, as an f-string formats it.\<close>

fun digits10 :: "nat \<Rightarrow> ustr" where
  "digits10 n = (if n < 10 then [48 + n] else digits10 (n div 10) @ [48 + n mod 10])"

declare digits10.simps [simp del]

definition str_int :: "int \<Rightarrow> ustr" where
  "str_int i = (if i < 0 then 45 # digits10 (nat (- i)) else digits10 (nat i))"

text \<open>Truthiness of an optional string: \<open>None\<close> and the empty string are false.\<close>

fun truthy :: "ustr option \<Rightarrow> bool" where
  "truthy None = False"
| "truthy (Some s) = (s \<noteq> [])"

section \<open>The request models and their construction\<close>

text \<open>
  Constructing a pydantic model from a dictionary looks at the declared fields only
  (other keys are ignored), takes the default of an absent optional field without
  validating it, and collects one error for every required field that is absent and for
  every value that its field's validator rejects; with at least one error the
  construction raises \<open>ValidationError\<close>. A value that already has the declared type is
  accepted as it is; what happens to any other value is pydantic's coercion.
\<close>

datatype field_error = Missing | Invalid

type_synonym 'a validated = "(ustr \<times> field_error) list + 'a"

definition v_str :: "pylib \<Rightarrow> json \<Rightarrow> ustr option" where
  "v_str lib v = (case v of JStr s \<Rightarrow> Some s | _ \<Rightarrow> lax_str lib v)"

definition v_int :: "pylib \<Rightarrow> json \<Rightarrow> int option" where
  "v_int lib v = (case v of JInt i \<Rightarrow> Some i | _ \<Rightarrow> lax_int lib v)"

definition v_float :: "pylib \<Rightarrow> json \<Rightarrow> rat option" where
  "v_float lib v = (case v of JFloat r \<Rightarrow> Some r | _ \<Rightarrow> lax_float lib v)"

definition v_bool :: "pylib \<Rightarrow> json \<Rightarrow> bool option" where
  "v_bool lib v = (case v of JBool b \<Rightarrow> Some b | _ \<Rightarrow> lax_bool lib v)"

definition v_opt_str :: "pylib \<Rightarrow> json \<Rightarrow> ustr option option" where
  "v_opt_str lib v = (case v of JNull \<Rightarrow> Some None | _ \<Rightarrow> map_option Some (v_str lib v))"

definition required :: "(json \<Rightarrow> 'a option) \<Rightarrow> payload \<Rightarrow> ustr \<Rightarrow> 'a validated" where
  "required val data k =
     (case data k of
        None \<Rightarrow> Inl [(k, Missing)]
      | Some v \<Rightarrow> (case val v of None \<Rightarrow> Inl [(k, Invalid)] | Some a \<Rightarrow> Inr a))"

definition optional :: "(json \<Rightarrow> 'a option) \<Rightarrow> 'a \<Rightarrow> payload \<Rightarrow> ustr \<Rightarrow> 'a validated" where
  "optional val dflt data k =
     (case data k of
        None \<Rightarrow> Inr dflt
      | Some v \<Rightarrow> (case val v of None \<Rightarrow> Inl [(k, Invalid)] | Some a \<Rightarrow> Inr a))"

text \<open>Fields are validated in declaration order and every error is kept.\<close>

fun ap :: "('a \<Rightarrow> 'b) validated \<Rightarrow> 'a validated \<Rightarrow> 'b validated" where
  "ap (Inr f) (Inr a) = Inr (f a)"
| "ap (Inl es) (Inr a) = Inl es"
| "ap (Inr f) (Inl es) = Inl es"
| "ap (Inl es) (Inl es') = Inl (es @ es')"

text \<open>
  The exceptions that can leave the dispatcher: pydantic's \<open>ValidationError\<close> with its
  list of field errors, and the \<open>AttributeError\<close> of calling \<open>.upper()\<close> on a value that is
  not a string.
\<close>

datatype exc = ValidationError "(ustr \<times> field_error) list" | AttributeError

definition raise_errors :: "'a validated \<Rightarrow> exc + 'a" where
  "raise_errors r = (case r of Inl es \<Rightarrow> Inl (ValidationError es) | Inr a \<Rightarrow> Inr a)"

record CheckRequestHTTP =
  http_type :: ustr
  http_address :: ustr
  http_port :: int
  http_timeout :: rat
  http_method :: ustr
  http_ssl :: bool

record CheckRequestIMAP =
  imap_type :: ustr
  imap_host :: ustr
  imap_port :: int
  imap_ssl :: bool
  imap_timeout :: rat
  imap_username :: "ustr option"
  imap_password :: "ustr option"

record CheckRequestSMTP =
  smtp_type :: ustr
  smtp_host :: ustr
  smtp_port :: int
  smtp_timeout :: rat
  smtp_use_tls :: bool
  smtp_start_tls :: bool
  smtp_validate_certs :: bool
  smtp_username :: "ustr option"
  smtp_password :: "ustr option"

definition fields_HTTP :: "pylib \<Rightarrow> payload \<Rightarrow> CheckRequestHTTP validated" where
  "fields_HTTP lib data =
     ap (ap (ap (ap (ap (ap
       (Inr (\<lambda>t a p tm m s.
          \<lparr>http_type = t, http_address = a, http_port = p, http_timeout = tm,
           http_method = m, http_ssl = s\<rparr>))
       (optional (v_str lib) (ascii ''HTTP'') data (ascii ''type'')))
       (required (v_str lib) data (ascii ''address'')))
       (required (v_int lib) data (ascii ''port'')))
       (optional (v_float lib) 5 data (ascii ''timeout'')))
       (optional (v_str lib) (ascii ''GET'') data (ascii ''method'')))
       (optional (v_bool lib) False data (ascii ''ssl''))"

definition fields_IMAP :: "pylib \<Rightarrow> payload \<Rightarrow> CheckRequestIMAP validated" where
  "fields_IMAP lib data =
     ap (ap (ap (ap (ap (ap (ap
       (Inr (\<lambda>t h p s tm u pw.
          \<lparr>imap_type = t, imap_host = h, imap_port = p, imap_ssl = s, imap_timeout = tm,
           imap_username = u, imap_password = pw\<rparr>))
       (optional (v_str lib) (ascii ''IMAP'') data (ascii ''type'')))
       (required (v_str lib) data (ascii ''host'')))
       (required (v_int lib) data (ascii ''port'')))
       (optional (v_bool lib) True data (ascii ''ssl'')))
       (optional (v_float lib) 5 data (ascii ''timeout'')))
       (optional (v_opt_str lib) None data (ascii ''username'')))
       (optional (v_opt_str lib) None data (ascii ''password''))"

definition fields_SMTP :: "pylib \<Rightarrow> payload \<Rightarrow> CheckRequestSMTP validated" where
  "fields_SMTP lib data =
     ap (ap (ap (ap (ap (ap (ap (ap (ap
       (Inr (\<lambda>t h p tm ut st vc u pw.
          \<lparr>smtp_type = t, smtp_host = h, smtp_port = p, smtp_timeout = tm,
           smtp_use_tls = ut, smtp_start_tls = st, smtp_validate_certs = vc,
           smtp_username = u, smtp_password = pw\<rparr>))
       (optional (v_str lib) (ascii ''SMTP'') data (ascii ''type'')))
       (required (v_str lib) data (ascii ''host'')))
       (required (v_int lib) data (ascii ''port'')))
       (optional (v_float lib) 5 data (ascii ''timeout'')))
       (optional (v_bool lib) False data (ascii ''use_tls'')))
       (optional (v_bool lib) False data (ascii ''start_tls'')))
       (optional (v_bool lib) True data (ascii ''validate_certs'')))
       (optional (v_opt_str lib) None data (ascii ''username'')))
       (optional (v_opt_str lib) None data (ascii ''password''))"

definition new_CheckRequestHTTP :: "pylib \<Rightarrow> payload \<Rightarrow> exc + CheckRequestHTTP" where
  "new_CheckRequestHTTP lib data = raise_errors (fields_HTTP lib data)"

definition new_CheckRequestIMAP :: "pylib \<Rightarrow> payload \<Rightarrow> exc + CheckRequestIMAP" where
  "new_CheckRequestIMAP lib data = raise_errors (fields_IMAP lib data)"

definition new_CheckRequestSMTP :: "pylib \<Rightarrow> payload \<Rightarrow> exc + CheckRequestSMTP" where
  "new_CheckRequestSMTP lib data = raise_errors (fields_SMTP lib data)"

section \<open>The network and the calls a probe makes\<close>

text \<open>
  An exception caught by a handler's \<open>except Exception\<close> is only ever turned into text,
  so a fault is the text \<open>str(e)\<close> of the exception.
\<close>

datatype fault = Fault ustr

fun str_fault :: "fault \<Rightarrow> ustr" where
  "str_fault (Fault m) = m"

record http_response =
  status_code :: int
  headers :: "(ustr \<times> json) list"
  resp_text :: ustr

text \<open>The message of an SMTP greeting: bytes, or any other object with its \<open>str()\<close>.\<close>

datatype greeting = Bytes "8 word list" | Other ustr

text \<open>
  The outcome of every library call a probe can make, as a function of the call's
  arguments: \<open>Inl\<close> is the exception the call raises (a refused connection, an expired
  timeout, a TLS failure, a rejected login), \<open>Inr\<close> what it returns. One probe makes each
  call at most once, so these functions describe every behaviour of the outside world a
  probe can meet. \<open>http_request\<close> is the whole \<open>async with\<close> block of the HTTP probe: the
  client bound to the timeout and its one request.
\<close>

record net =
  http_request :: "ustr \<Rightarrow> ustr \<Rightarrow> rat \<Rightarrow> fault + http_response"
  imap_open :: "bool \<Rightarrow> ustr \<Rightarrow> int \<Rightarrow> fault + unit"
  imap_wait_hello :: "rat \<Rightarrow> fault + unit"
  imap_login :: "ustr \<Rightarrow> ustr \<Rightarrow> rat \<Rightarrow> fault + unit"
  imap_logout :: "rat \<Rightarrow> fault + unit"
  smtp_new :: "ustr \<Rightarrow> int \<Rightarrow> bool \<Rightarrow> rat \<Rightarrow> fault + unit"
  smtp_connect :: "tls_ctx \<Rightarrow> fault + (int \<times> greeting)"
  smtp_starttls :: "tls_ctx \<Rightarrow> fault + unit"
  smtp_login :: "ustr \<Rightarrow> ustr \<Rightarrow> fault + unit"
  smtp_quit :: "fault + unit"

text \<open>
  Every library call is recorded, in order, with its arguments. Building the TLS context
  and the SMTP client object are local steps; all the others reach the network.
\<close>

datatype event =
    HttpRequest ustr ustr rat
  | ImapOpen bool ustr int
  | ImapWaitHello rat
  | ImapLogin ustr ustr rat
  | ImapLogout rat
  | CreateDefaultContext
  | SmtpNew ustr int bool rat
  | SmtpConnect tls_ctx
  | SmtpStarttls tls_ctx
  | SmtpLogin ustr ustr
  | SmtpQuit

fun is_login :: "event \<Rightarrow> bool" where
  "is_login (ImapLogin u p tm) = True"
| "is_login (SmtpLogin u p) = True"
| "is_login e = False"

section \<open>The three probes\<close>

text \<open>
  The body of a \<open>try\<close> block is a sequence of library calls. An action takes the calls
  made so far and returns its outcome with the calls made since: \<open>perform\<close> is one call
  with its outcome, \<open>and_then\<close> runs the next statement only if the one before it did not
  raise, \<open>swallow\<close> is the inner \<open>try ... except Exception: pass\<close>, and \<open>try_except\<close>
  turns the exception that ended the body into the envelope of the handler.
\<close>

type_synonym 'a action = "event list \<Rightarrow> (fault + 'a) \<times> event list"

definition perform :: "event \<Rightarrow> fault + 'a \<Rightarrow> 'a action" where
  "perform ev outcome tr = (outcome, tr @ [ev])"

definition nothing :: "unit action" where
  "nothing tr = (Inr (), tr)"

definition finish :: "'a \<Rightarrow> 'a action" where
  "finish a tr = (Inr a, tr)"

definition and_then :: "'a action \<Rightarrow> ('a \<Rightarrow> 'b action) \<Rightarrow> 'b action" where
  "and_then m f tr = (case m tr of (Inl e, tr') \<Rightarrow> (Inl e, tr') | (Inr a, tr') \<Rightarrow> f a tr')"

definition swallow :: "'a action \<Rightarrow> unit action" where
  "swallow m tr = (Inr (), snd (m tr))"

definition try_except ::
  "event list \<Rightarrow> envelope action \<Rightarrow> (fault \<Rightarrow> envelope) \<Rightarrow> envelope \<times> event list" where
  "try_except tr0 body handler =
     (case body tr0 of (Inl e, tr) \<Rightarrow> (handler e, tr) | (Inr env, tr) \<Rightarrow> (env, tr))"

definition fail_envelope :: "ustr \<Rightarrow> ustr \<Rightarrow> envelope" where
  "fail_envelope ty msg =
     [(ascii ''status'', JStr (ascii ''fail'')),
      (ascii ''type'', JStr ty),
      (ascii ''error'', JStr msg)]"

definition http_protocol :: "CheckRequestHTTP \<Rightarrow> ustr" where
  "http_protocol data =
     (if http_port data = 443 \<or> http_ssl data then ascii ''https'' else ascii ''http'')"

definition http_url :: "CheckRequestHTTP \<Rightarrow> ustr" where
  "http_url data =
     http_protocol data @ ascii ''://'' @ http_address data @ ascii '':'' @ str_int (http_port data)"

definition handle_http :: "pylib \<Rightarrow> net \<Rightarrow> CheckRequestHTTP \<Rightarrow> envelope \<times> event list" where
  "handle_http lib nw data =
     (let protocol = http_protocol data;
          url = http_url data;
          method = upper lib (http_method data)
      in try_except []
           (and_then
              (perform (HttpRequest method url (http_timeout data))
                 (http_request nw method url (http_timeout data)))
              (\<lambda>response.
            finish
              [(ascii ''status'', JStr (ascii ''success'')),
               (ascii ''protocol'', JStr protocol),
               (ascii ''type'', JStr (http_type data)),
               (ascii ''code'', JInt (status_code response)),
               (ascii ''headers'', JDict (headers response)),
               (ascii ''body'', JStr (resp_text response))]))
           (\<lambda>e. fail_envelope (http_type data) (str_fault e)))"

text \<open>The body of the IMAP probe's \<open>try\<close> block.\<close>

definition imap_session :: "net \<Rightarrow> CheckRequestIMAP \<Rightarrow> envelope action" where
  "imap_session nw data =
     and_then
       (perform (ImapOpen (imap_ssl data) (imap_host data) (imap_port data))
          (imap_open nw (imap_ssl data) (imap_host data) (imap_port data)))
       (\<lambda>client.
     and_then
       (perform (ImapWaitHello (imap_timeout data)) (imap_wait_hello nw (imap_timeout data)))
       (\<lambda>_.
     and_then
       (if truthy (imap_username data) \<and> truthy (imap_password data)
        then perform
               (ImapLogin (the (imap_username data)) (the (imap_password data)) (imap_timeout data))
               (imap_login nw (the (imap_username data)) (the (imap_password data))
                  (imap_timeout data))
        else nothing)
       (\<lambda>_.
     and_then
       (swallow (perform (ImapLogout (imap_timeout data)) (imap_logout nw (imap_timeout data))))
       (\<lambda>_.
     finish
       [(ascii ''status'', JStr (ascii ''success'')),
        (ascii ''type'', JStr (imap_type data)),
        (ascii ''protocol'', JStr (ascii ''imap'' @ (if imap_ssl data then ascii ''s'' else []))),
        (ascii ''message'', JStr (ascii ''IMAP connected!''))]))))"

definition handle_imap :: "net \<Rightarrow> CheckRequestIMAP \<Rightarrow> envelope \<times> event list" where
  "handle_imap nw data =
     try_except [] (imap_session nw data)
       (\<lambda>e. fail_envelope (imap_type data) (str_fault e))"

text \<open>The message of the mode conflict, a Russian sentence, by its code points.\<close>

definition mode_conflict_message :: ustr where
  "mode_conflict_message =
     [1053, 1077, 1083, 1100, 1079, 1103, 32, 1086, 1076, 1085, 1086, 1074, 1088, 1077,
      1084, 1077, 1085, 1085, 1086, 32]
     @ ascii ''use_tls=True'' @ [32, 1080, 32] @ ascii ''start_tls=True. ''
     @ [1042, 1099, 1073, 1077, 1088, 1080, 1090, 1077, 32, 1086, 1076, 1080, 1085, 32,
        1088, 1077, 1078, 1080, 1084, 46]"

definition build_tls_ctx :: "pylib \<Rightarrow> bool \<Rightarrow> tls_ctx" where
  "build_tls_ctx lib validate_certs =
     (let tls_ctx = create_default_context lib
      in if \<not> validate_certs
         then (tls_ctx\<lparr>check_hostname := False\<rparr>)\<lparr>verify_mode := CERT_NONE\<rparr>
         else tls_ctx)"

definition greeting_text :: "pylib \<Rightarrow> greeting \<Rightarrow> ustr" where
  "greeting_text lib msg = (case msg of Bytes bs \<Rightarrow> utf8_ignore lib bs | Other s \<Rightarrow> s)"

definition smtp_mode :: "CheckRequestSMTP \<Rightarrow> ustr" where
  "smtp_mode data =
     (if smtp_use_tls data then ascii ''SMTPS''
      else if smtp_start_tls data then ascii ''SMTP+STARTTLS'' else ascii ''PLAIN'')"

text \<open>The body of the SMTP probe's \<open>try\<close> block, with the TLS context built before it.\<close>

definition smtp_session :: "pylib \<Rightarrow> net \<Rightarrow> CheckRequestSMTP \<Rightarrow> tls_ctx \<Rightarrow> envelope action" where
  "smtp_session lib nw data tls_ctx =
     and_then
       (perform
          (SmtpNew (smtp_host data) (smtp_port data) (smtp_use_tls data) (smtp_timeout data))
          (smtp_new nw (smtp_host data) (smtp_port data) (smtp_use_tls data) (smtp_timeout data)))
       (\<lambda>smtp.
     and_then (perform (SmtpConnect tls_ctx) (smtp_connect nw tls_ctx))
       (\<lambda>(code, msg).
     and_then
       (if smtp_start_tls data
        then perform (SmtpStarttls tls_ctx) (smtp_starttls nw tls_ctx)
        else nothing)
       (\<lambda>_.
     and_then
       (if truthy (smtp_username data) \<and> truthy (smtp_password data)
        then perform (SmtpLogin (the (smtp_username data)) (the (smtp_password data)))
               (smtp_login nw (the (smtp_username data)) (the (smtp_password data)))
        else nothing)
       (\<lambda>_.
     and_then (perform SmtpQuit (smtp_quit nw))
       (\<lambda>_.
     finish
       [(ascii ''status'', JStr (ascii ''success'')),
        (ascii ''type'', JStr (smtp_type data)),
        (ascii ''protocol'', JStr (ascii ''smtp'')),
        (ascii ''greeting_code'', JInt code),
        (ascii ''greeting_message'', JStr (greeting_text lib msg)),
        (ascii ''mode'', JStr (smtp_mode data)),
        (ascii ''validate_certs'', JBool (smtp_validate_certs data))])))))"

definition handle_smtp :: "pylib \<Rightarrow> net \<Rightarrow> CheckRequestSMTP \<Rightarrow> envelope \<times> event list" where
  "handle_smtp lib nw data =
     (if smtp_use_tls data \<and> smtp_start_tls data
      then (fail_envelope (smtp_type data) mode_conflict_message, [])
      else
      (let tls_ctx = build_tls_ctx lib (smtp_validate_certs data)
       in try_except [CreateDefaultContext] (smtp_session lib nw data tls_ctx)
            (\<lambda>e. fail_envelope (smtp_type data) (str_fault e))))"

section \<open>The dispatcher\<close>

text \<open>
  \<open>req = Model(**data); return await handle(req)\<close>: an exception of the construction
  leaves the dispatcher, nothing in \<open>check_connection\<close> catches it.
\<close>

definition construct_then ::
  "exc + 'r \<Rightarrow> ('r \<Rightarrow> envelope \<times> event list) \<Rightarrow> (exc + envelope) \<times> event list" where
  "construct_then c handle =
     (case c of
        Inl e \<Rightarrow> (Inl e, [])
      | Inr req \<Rightarrow> (let (env, tr) = handle req in (Inr env, tr)))"

text \<open>\<open>data.get("type", "HTTP")\<close>\<close>

definition get_type :: "payload \<Rightarrow> json" where
  "get_type data = (case data (ascii ''type'') of None \<Rightarrow> JStr (ascii ''HTTP'') | Some v \<Rightarrow> v)"

definition check_connection :: "pylib \<Rightarrow> net \<Rightarrow> payload \<Rightarrow> (exc + envelope) \<times> event list" where
  "check_connection lib nw data =
     (case get_type data of
        JStr t \<Rightarrow>
          (let ty = upper lib t
           in if ty = ascii ''HTTP''
              then construct_then (new_CheckRequestHTTP lib data) (handle_http lib nw)
              else if ty = ascii ''IMAP''
              then construct_then (new_CheckRequestIMAP lib data) (handle_imap nw)
              else if ty = ascii ''SMTP''
              then construct_then (new_CheckRequestSMTP lib data) (handle_smtp lib nw)
              else (Inr [(ascii ''status'', JStr (ascii ''fail'')),
                         (ascii ''error'', JStr (ascii ''Unsupported type '' @ ty))], []))
      | _ \<Rightarrow> (Inl AttributeError, []))"

text \<open>A concrete library and a concrete network, to run the probes on.\<close>

definition lib0 :: pylib where
  "lib0 =
     \<lparr>upper_table = (\<lambda>c. [c]),
      lax_str = (\<lambda>v. None),
      lax_int = (\<lambda>v. None),
      lax_float = (\<lambda>v. case v of JInt i \<Rightarrow> Some (of_int i) | _ \<Rightarrow> None),
      lax_bool = (\<lambda>v. None),
      utf8_ignore = map unat,
      create_default_context = \<lparr>check_hostname = True, verify_mode = CERT_REQUIRED\<rparr>\<rparr>"

definition net_ok :: net where
  "net_ok =
     \<lparr>http_request = (\<lambda>m u tm. Inr \<lparr>status_code = 404, headers = [], resp_text = ascii ''Not Found''\<rparr>),
      imap_open = (\<lambda>s h p. Inr ()),
      imap_wait_hello = (\<lambda>tm. Inr ()),
      imap_login = (\<lambda>u p tm. Inr ()),
      imap_logout = (\<lambda>tm. Inl (Fault (ascii ''logout failed''))),
      smtp_new = (\<lambda>h p t tm. Inr ()),
      smtp_connect = (\<lambda>c. Inr (220, Other (ascii ''ready''))),
      smtp_starttls = (\<lambda>c. Inr ()),
      smtp_login = (\<lambda>u p. Inr ()),
      smtp_quit = Inr ()\<rparr>"

section \<open>Requests and predicates used in the statements\<close>

text \<open>
  A declared field fails the construction when it is required and absent, or present
  with a value its validator rejects.
\<close>

definition absent :: "payload \<Rightarrow> ustr \<Rightarrow> bool" where
  "absent data k = (data k = None)"

definition rejected :: "(json \<Rightarrow> 'a option) \<Rightarrow> payload \<Rightarrow> ustr \<Rightarrow> bool" where
  "rejected val data k = (case data k of None \<Rightarrow> False | Some v \<Rightarrow> val v = None)"

definition invalid_HTTP :: "pylib \<Rightarrow> payload \<Rightarrow> bool" where
  "invalid_HTTP lib data =
     (absent data (ascii ''address'') \<or> absent data (ascii ''port'')
      \<or> rejected (v_str lib) data (ascii ''type'')
      \<or> rejected (v_str lib) data (ascii ''address'')
      \<or> rejected (v_int lib) data (ascii ''port'')
      \<or> rejected (v_float lib) data (ascii ''timeout'')
      \<or> rejected (v_str lib) data (ascii ''method'')
      \<or> rejected (v_bool lib) data (ascii ''ssl''))"

definition invalid_IMAP :: "pylib \<Rightarrow> payload \<Rightarrow> bool" where
  "invalid_IMAP lib data =
     (absent data (ascii ''host'') \<or> absent data (ascii ''port'')
      \<or> rejected (v_str lib) data (ascii ''type'')
      \<or> rejected (v_str lib) data (ascii ''host'')
      \<or> rejected (v_int lib) data (ascii ''port'')
      \<or> rejected (v_bool lib) data (ascii ''ssl'')
      \<or> rejected (v_float lib) data (ascii ''timeout'')
      \<or> rejected (v_opt_str lib) data (ascii ''username'')
      \<or> rejected (v_opt_str lib) data (ascii ''password''))"

definition invalid_SMTP :: "pylib \<Rightarrow> payload \<Rightarrow> bool" where
  "invalid_SMTP lib data =
     (absent data (ascii ''host'') \<or> absent data (ascii ''port'')
      \<or> rejected (v_str lib) data (ascii ''type'')
      \<or> rejected (v_str lib) data (ascii ''host'')
      \<or> rejected (v_int lib) data (ascii ''port'')
      \<or> rejected (v_float lib) data (ascii ''timeout'')
      \<or> rejected (v_bool lib) data (ascii ''use_tls'')
      \<or> rejected (v_bool lib) data (ascii ''start_tls'')
      \<or> rejected (v_bool lib) data (ascii ''validate_certs'')
      \<or> rejected (v_opt_str lib) data (ascii ''username'')
      \<or> rejected (v_opt_str lib) data (ascii ''password''))"

definition payload_http_empty :: payload where
  "payload_http_empty = [ascii ''type'' \<mapsto> JStr (ascii ''http'')]"

definition payload_imap_bad_port :: payload where
  "payload_imap_bad_port =
     [ascii ''type'' \<mapsto> JStr (ascii ''IMAP''), ascii ''host'' \<mapsto> JStr (ascii ''mail.example.org''),
      ascii ''port'' \<mapsto> JList []]"

definition payload_smtp_no_host :: payload where
  "payload_smtp_no_host = [ascii ''type'' \<mapsto> JStr (ascii ''Smtp''), ascii ''port'' \<mapsto> JInt 25]"

definition payload_imap_no_host :: payload where
  "payload_imap_no_host = [ascii ''type'' \<mapsto> JStr (ascii ''IMAP''), ascii ''port'' \<mapsto> JInt 993]"

definition payload_smtp_conflict :: payload where
  "payload_smtp_conflict =
     [ascii ''type'' \<mapsto> JStr (ascii ''smtp''), ascii ''host'' \<mapsto> JStr (ascii ''mail.example.org''),
      ascii ''port'' \<mapsto> JInt 465, ascii ''use_tls'' \<mapsto> JBool True,
      ascii ''start_tls'' \<mapsto> JBool True]"

definition req443 :: CheckRequestHTTP where
  "req443 =
     \<lparr>http_type = ascii ''HTTP'', http_address = ascii ''example.org'', http_port = 443,
      http_timeout = 5, http_method = ascii ''get'', http_ssl = False\<rparr>"

definition req_conflict :: CheckRequestSMTP where
  "req_conflict =
     \<lparr>smtp_type = ascii ''smtp'', smtp_host = ascii ''mail.example.org'', smtp_port = 465,
      smtp_timeout = 5, smtp_use_tls = True, smtp_start_tls = True, smtp_validate_certs = True,
      smtp_username = None, smtp_password = None\<rparr>"

definition payload_http_default :: payload where
  "payload_http_default =
     [ascii ''address'' \<mapsto> JStr (ascii ''example.org''), ascii ''port'' \<mapsto> JInt 80]"

definition payload_http_mixed :: payload where
  "payload_http_mixed =
     [ascii ''type'' \<mapsto> JStr (ascii ''hTtP''), ascii ''address'' \<mapsto> JStr (ascii ''example.org''),
      ascii ''port'' \<mapsto> JInt 80]"

definition payload_imap_mixed :: payload where
  "payload_imap_mixed =
     [ascii ''type'' \<mapsto> JStr (ascii ''Imap''), ascii ''host'' \<mapsto> JStr (ascii ''mail.example.org''),
      ascii ''port'' \<mapsto> JInt 993]"

definition payload_smtp_mixed :: payload where
  "payload_smtp_mixed =
     [ascii ''type'' \<mapsto> JStr (ascii ''sMTP''), ascii ''host'' \<mapsto> JStr (ascii ''mail.example.org''),
      ascii ''port'' \<mapsto> JInt 25]"

definition req_smtp :: "bool \<Rightarrow> bool \<Rightarrow> bool \<Rightarrow> ustr option \<Rightarrow> ustr option \<Rightarrow> CheckRequestSMTP" where
  "req_smtp use_tls start_tls validate_certs username password =
     \<lparr>smtp_type = ascii ''SMTP'', smtp_host = ascii ''mail.example.org'', smtp_port = 587,
      smtp_timeout = 5, smtp_use_tls = use_tls, smtp_start_tls = start_tls,
      smtp_validate_certs = validate_certs, smtp_username = username, smtp_password = password\<rparr>"

definition net_bytes :: net where
  "net_bytes = net_ok\<lparr>smtp_connect := (\<lambda>c. Inr (220, Bytes [0x6F, 0x6B]))\<rparr>"

definition req_imap :: "ustr option \<Rightarrow> ustr option \<Rightarrow> CheckRequestIMAP" where
  "req_imap username password =
     \<lparr>imap_type = ascii ''IMAP'', imap_host = ascii ''mail.example.org'', imap_port = 993,
      imap_ssl = True, imap_timeout = 5, imap_username = username, imap_password = password\<rparr>"

definition net_login_rejected :: net where
  "net_login_rejected =
     net_ok\<lparr>imap_login := (\<lambda>u p tm. Inl (Fault (ascii ''bad credentials'')))\<rparr>"

text \<open>The calls a mail probe can make, given its request.\<close>

definition imap_events :: "CheckRequestIMAP \<Rightarrow> event set" where
  "imap_events data =
     {ImapOpen (imap_ssl data) (imap_host data) (imap_port data),
      ImapWaitHello (imap_timeout data), ImapLogout (imap_timeout data)}
     \<union> (if truthy (imap_username data) \<and> truthy (imap_password data)
        then {ImapLogin (the (imap_username data)) (the (imap_password data)) (imap_timeout data)}
        else {})"

definition smtp_events :: "CheckRequestSMTP \<Rightarrow> tls_ctx \<Rightarrow> event set" where
  "smtp_events data ctx =
     {SmtpNew (smtp_host data) (smtp_port data) (smtp_use_tls data) (smtp_timeout data),
      SmtpConnect ctx, SmtpQuit}
     \<union> (if smtp_start_tls data then {SmtpStarttls ctx} else {})
     \<union> (if truthy (smtp_username data) \<and> truthy (smtp_password data)
        then {SmtpLogin (the (smtp_username data)) (the (smtp_password data))}
        else {})"

section \<open>Auxiliary facts\<close>

lemma ascii_eq_iff [simp]: "ascii s = ascii t \<longleftrightarrow> s = t"
  unfolding ascii_def by (simp add: inj_map_eq_map [OF inj_of_char])

lemma ascii_Nil [simp]: "ascii [] = []"
  by (simp add: ascii_def)

lemma status_of_fail [simp]:
  "map_of (fail_envelope ty msg) (ascii ''status'') = Some (JStr (ascii ''fail''))"
  by (simp add: fail_envelope_def)

lemma and_then_perform_Inr [simp]:
  "and_then (perform ev (Inr a)) f tr = f a (tr @ [ev])"
  by (simp add: and_then_def perform_def)

lemma and_then_perform_Inl [simp]:
  "and_then (perform ev (Inl e)) f tr = (Inl e, tr @ [ev])"
  by (simp add: and_then_def perform_def)

lemma and_then_nothing [simp]: "and_then nothing f tr = f () tr"
  by (simp add: and_then_def nothing_def)

lemma and_then_swallow [simp]: "and_then (swallow m) f tr = f () (snd (m tr))"
  by (simp add: and_then_def swallow_def)

lemma snd_perform [simp]: "snd (perform ev r tr) = tr @ [ev]"
  by (simp add: perform_def)

lemma finish_apply [simp]: "finish a tr = (Inr a, tr)"
  by (simp add: finish_def)

lemma nothing_apply [simp]: "nothing tr = (Inr (), tr)"
  by (simp add: nothing_def)

lemma isl_ap [simp]: "isl (ap f x) \<longleftrightarrow> isl f \<or> isl x"
  by (cases f; cases x) simp_all

lemma isl_required [simp]: "isl (required val data k) \<longleftrightarrow> absent data k \<or> rejected val data k"
  by (simp add: required_def absent_def rejected_def split: option.splits)

lemma isl_optional [simp]: "isl (optional val d data k) \<longleftrightarrow> rejected val data k"
  by (simp add: optional_def rejected_def split: option.splits)

lemma isl_fields_HTTP: "isl (fields_HTTP lib data) \<longleftrightarrow> invalid_HTTP lib data"
  unfolding fields_HTTP_def invalid_HTTP_def by simp blast

lemma isl_fields_IMAP: "isl (fields_IMAP lib data) \<longleftrightarrow> invalid_IMAP lib data"
  unfolding fields_IMAP_def invalid_IMAP_def by simp blast

lemma isl_fields_SMTP: "isl (fields_SMTP lib data) \<longleftrightarrow> invalid_SMTP lib data"
  unfolding fields_SMTP_def invalid_SMTP_def by simp blast

lemma construct_then_raise:
  "isl r \<Longrightarrow> \<exists>es. r = Inl es \<and> construct_then (raise_errors r) h = (Inl (ValidationError es), [])"
  by (cases r) (simp_all add: construct_then_def raise_errors_def)

lemmas lib0_eval = lib0_def upper_def upper_cp_def v_str_def v_int_def v_float_def v_bool_def
  v_opt_str_def required_def optional_def raise_errors_def construct_then_def get_type_def

lemma str_int_443: "str_int 443 = ascii ''443''"
  by (simp add: str_int_def digits10.simps ascii_def)

lemma upper_cp_same_letter:
  "same_letter c d \<Longrightarrow> d < 128 \<Longrightarrow> upper_cp lib c = upper_cp lib d"
  by (auto simp: same_letter_def upper_cp_def)

lemma upper_case_variant:
  "case_variant s w \<Longrightarrow> \<forall>d\<in>set w. d < 128 \<Longrightarrow> upper lib s = upper lib w"
  unfolding case_variant_def
proof (induction s w rule: list_all2_induct)
  case Nil
  show ?case by simp
next
  case (Cons c s d w)
  then have "upper_cp lib c = upper_cp lib d" and "upper lib s = upper lib w"
    by (simp_all add: upper_cp_same_letter)
  then show ?case by (simp add: upper_def)
qed

lemma upper_http: "case_variant t (ascii ''http'') \<Longrightarrow> upper lib t = ascii ''HTTP''"
  by (drule upper_case_variant [where lib = lib]) (simp_all add: upper_def upper_cp_def ascii_def)

lemma upper_imap: "case_variant t (ascii ''imap'') \<Longrightarrow> upper lib t = ascii ''IMAP''"
  by (drule upper_case_variant [where lib = lib]) (simp_all add: upper_def upper_cp_def ascii_def)

lemma upper_smtp: "case_variant t (ascii ''smtp'') \<Longrightarrow> upper lib t = ascii ''SMTP''"
  by (drule upper_case_variant [where lib = lib]) (simp_all add: upper_def upper_cp_def ascii_def)

lemma and_then_events:
  assumes "\<And>tr. set (snd (m tr)) \<subseteq> set tr \<union> E"
    and "\<And>a tr. set (snd (f a tr)) \<subseteq> set tr \<union> E"
  shows "set (snd (and_then m f tr)) \<subseteq> set tr \<union> E"
proof (cases "m tr")
  case (Pair r tr')
  have m: "set tr' \<subseteq> set tr \<union> E"
    using assms(1) [of tr] Pair by simp
  show ?thesis
  proof (cases r)
    case (Inl e)
    with Pair m show ?thesis by (simp add: and_then_def)
  next
    case (Inr a)
    with Pair m assms(2) [of a tr'] show ?thesis by (auto simp: and_then_def)
  qed
qed

lemma perform_events: "ev \<in> E \<Longrightarrow> set (snd (perform ev r tr)) \<subseteq> set tr \<union> E"
  by auto

lemma swallow_events:
  "(\<And>tr. set (snd (m tr)) \<subseteq> set tr \<union> E) \<Longrightarrow> set (snd (swallow m tr)) \<subseteq> set tr \<union> E"
  by (simp add: swallow_def)

lemma snd_try_except [simp]: "snd (try_except tr0 body h) = snd (body tr0)"
  by (simp add: try_except_def split: prod.splits sum.splits)

lemma case_prod_events:
  "(\<And>a b. set (snd (f a b tr)) \<subseteq> S) \<Longrightarrow> set (snd ((case p of (a, b) \<Rightarrow> f a b) tr)) \<subseteq> S"
  by (cases p) simp

lemma if_events:
  "(b \<Longrightarrow> set (snd (m tr)) \<subseteq> S) \<Longrightarrow> (\<not> b \<Longrightarrow> set (snd (n tr)) \<subseteq> S)
   \<Longrightarrow> set (snd ((if b then m else n) tr)) \<subseteq> S"
  by simp

lemma smtp_session_events:
  "set (snd (smtp_session lib nw data ctx tr)) \<subseteq> set tr \<union> smtp_events data ctx"
  unfolding smtp_session_def
  by (intro and_then_events perform_events case_prod_events if_events)
     (auto simp: smtp_events_def)

lemma imap_session_events:
  "set (snd (imap_session nw data tr)) \<subseteq> set tr \<union> imap_events data"
  unfolding imap_session_def
  by (intro and_then_events perform_events swallow_events if_events)
     (auto simp: imap_events_def)

lemma and_then_Inr:
  "and_then m f tr = (Inr b, tr') \<Longrightarrow> \<exists>a tr''. m tr = (Inr a, tr'') \<and> f a tr'' = (Inr b, tr')"
  by (auto simp: and_then_def split: prod.splits sum.splits)

lemma perform_Inr: "perform ev r tr = (Inr a, tr') \<longleftrightarrow> r = Inr a \<and> tr' = tr @ [ev]"
  by (auto simp: perform_def)

lemma try_except_success:
  assumes "map_of (fst (try_except tr0 body h)) k = Some v"
    and "\<And>e. map_of (h e) k \<noteq> Some v"
  shows "\<exists>tr. body tr0 = (Inr (fst (try_except tr0 body h)), tr)"
  using assms by (auto simp: try_except_def split: prod.splits sum.splits)

lemma smtp_session_Inr:
  assumes "smtp_session lib nw data ctx tr = (Inr env, tr')"
  shows "\<exists>code msg. smtp_connect nw ctx = Inr (code, msg)
         \<and> env =
             [(ascii ''status'', JStr (ascii ''success'')),
              (ascii ''type'', JStr (smtp_type data)),
              (ascii ''protocol'', JStr (ascii ''smtp'')),
              (ascii ''greeting_code'', JInt code),
              (ascii ''greeting_message'', JStr (greeting_text lib msg)),
              (ascii ''mode'', JStr (smtp_mode data)),
              (ascii ''validate_certs'', JBool (smtp_validate_certs data))]"
  using assms unfolding smtp_session_def
  by (auto dest!: and_then_Inr simp: perform_Inr)

lemma handle_smtp_no_conflict:
  "\<not> (smtp_use_tls data \<and> smtp_start_tls data) \<Longrightarrow>
   handle_smtp lib nw data =
     try_except [CreateDefaultContext]
       (smtp_session lib nw data (build_tls_ctx lib (smtp_validate_certs data)))
       (\<lambda>e. fail_envelope (smtp_type data) (str_fault e))"
  by (auto simp: handle_smtp_def Let_def)

lemma handle_smtp_events:
  "set (snd (handle_smtp lib nw data))
     \<subseteq> {CreateDefaultContext} \<union> smtp_events data (build_tls_ctx lib (smtp_validate_certs data))"
proof (cases "smtp_use_tls data \<and> smtp_start_tls data")
  case True
  then show ?thesis by (simp add: handle_smtp_def)
next
  case False
  show ?thesis
    using smtp_session_events [of lib nw data "build_tls_ctx lib (smtp_validate_certs data)"
        "[CreateDefaultContext]"]
    by (simp add: handle_smtp_no_conflict [OF False])
qed

lemma handle_imap_events: "set (snd (handle_imap nw data)) \<subseteq> imap_events data"
  using imap_session_events [of nw data "[]"] by (simp add: handle_imap_def)

lemma build_tls_ctx_eq:
  "build_tls_ctx lib v =
     (if v then create_default_context lib
      else create_default_context lib\<lparr>check_hostname := False, verify_mode := CERT_NONE\<rparr>)"
  by (simp add: build_tls_ctx_def Let_def)

lemma and_then_extends:
  assumes "\<And>tr. set tr \<subseteq> set (snd (m tr))"
    and "\<And>a tr. set tr \<subseteq> set (snd (f a tr))"
  shows "set tr \<subseteq> set (snd (and_then m f tr))"
proof (cases "m tr")
  case (Pair r tr')
  have m: "set tr \<subseteq> set tr'"
    using assms(1) [of tr] Pair by simp
  show ?thesis
  proof (cases r)
    case (Inl e)
    with Pair m show ?thesis by (simp add: and_then_def)
  next
    case (Inr a)
    with Pair m assms(2) [of tr' a] show ?thesis by (auto simp: and_then_def)
  qed
qed

lemma perform_extends: "set tr \<subseteq> set (snd (perform ev r tr))"
  by auto

lemma case_prod_extends:
  "(\<And>a b. set tr \<subseteq> set (snd (f a b tr))) \<Longrightarrow> set tr \<subseteq> set (snd ((case p of (a, b) \<Rightarrow> f a b) tr))"
  by (cases p) simp

lemma if_extends:
  "(b \<Longrightarrow> set tr \<subseteq> set (snd (m tr))) \<Longrightarrow> (\<not> b \<Longrightarrow> set tr \<subseteq> set (snd (n tr)))
   \<Longrightarrow> set tr \<subseteq> set (snd ((if b then m else n) tr))"
  by simp

lemma finish_extends: "set tr \<subseteq> set (snd (finish a tr))"
  by simp

lemma nothing_extends: "set tr \<subseteq> set (snd (nothing tr))"
  by simp

lemma swallow_extends:
  "(\<And>tr. set tr \<subseteq> set (snd (m tr))) \<Longrightarrow> set tr \<subseteq> set (snd (swallow m tr))"
  by (simp add: swallow_def)

lemmas extends_intros = and_then_extends perform_extends case_prod_extends if_extends
  finish_extends nothing_extends swallow_extends

lemma performed_stays:
  assumes "\<And>a tr. set tr \<subseteq> set (snd (f a tr))"
  shows "ev \<in> set (snd (and_then (perform ev r) f tr))"
proof (cases r)
  case (Inl e)
  then show ?thesis by simp
next
  case (Inr a)
  have "set (tr @ [ev]) \<subseteq> set (snd (f a (tr @ [ev])))"
    by (rule assms)
  with Inr show ?thesis by auto
qed

lemma net_ok_simps [simp]:
  "imap_open net_ok b h p = Inr ()" "imap_wait_hello net_ok tm = Inr ()"
  "imap_login net_ok u pw tm = Inr ()"
  "smtp_new net_ok h p b tm = Inr ()" "smtp_connect net_ok c = Inr (220, Other (ascii ''ready''))"
  "smtp_starttls net_ok c = Inr ()" "smtp_login net_ok u pw = Inr ()" "smtp_quit net_ok = Inr ()"
  by (simp_all add: net_ok_def)

lemma req_smtp_simps [simp]:
  "smtp_type (req_smtp a b v u p) = ascii ''SMTP''"
  "smtp_host (req_smtp a b v u p) = ascii ''mail.example.org''"
  "smtp_port (req_smtp a b v u p) = 587" "smtp_timeout (req_smtp a b v u p) = 5"
  "smtp_use_tls (req_smtp a b v u p) = a" "smtp_start_tls (req_smtp a b v u p) = b"
  "smtp_validate_certs (req_smtp a b v u p) = v"
  "smtp_username (req_smtp a b v u p) = u" "smtp_password (req_smtp a b v u p) = p"
  by (simp_all add: req_smtp_def)

lemma req_imap_simps [simp]:
  "imap_type (req_imap u p) = ascii ''IMAP''" "imap_host (req_imap u p) = ascii ''mail.example.org''"
  "imap_port (req_imap u p) = 993" "imap_ssl (req_imap u p)" "imap_timeout (req_imap u p) = 5"
  "imap_username (req_imap u p) = u" "imap_password (req_imap u p) = p"
  by (simp_all add: req_imap_def)

lemma lib0_context [simp]:
  "create_default_context lib0 = \<lparr>check_hostname = True, verify_mode = CERT_REQUIRED\<rparr>"
  by (simp add: lib0_def)

lemmas probe_eval = handle_smtp_def smtp_session_def handle_imap_def imap_session_def
  try_except_def build_tls_ctx_def greeting_text_def smtp_mode_def Let_def

section \<open>The dispatcher: validation failures\<close>

text \<open>
  C1, as the specification states it, fails: an IMAP request without \<open>host\<close> makes the
  construction of the request model raise, and the exception leaves \<open>check_connection\<close>;
  no envelope is returned.
\<close>

theorem construction_failure_counterexample:
  "check_connection lib0 net_ok payload_imap_no_host =
     (Inl (ValidationError [(ascii ''host'', Missing)]), [])"
  by (simp add: check_connection_def payload_imap_no_host_def new_CheckRequestIMAP_def
      fields_IMAP_def lib0_eval ascii_def)

text \<open>
  C1 (amended). For every recognized probe type (HTTP, IMAP, SMTP), if the payload misses
  a required field or a declared field fails its validation, the construction raises a
  validation error carrying the field errors, the dispatcher does not catch it (it
  leaves \<open>check_connection\<close> as an exception instead of a failure envelope), and no
  library call, hence no network activity, has been made.
\<close>

theorem construction_failure_propagates:
  assumes "get_type data = JStr t"
  shows "(upper lib t = ascii ''HTTP'' \<and> invalid_HTTP lib data \<longrightarrow>
            (\<exists>es. fields_HTTP lib data = Inl es
                \<and> check_connection lib nw data = (Inl (ValidationError es), [])))
       \<and> (upper lib t = ascii ''IMAP'' \<and> invalid_IMAP lib data \<longrightarrow>
            (\<exists>es. fields_IMAP lib data = Inl es
                \<and> check_connection lib nw data = (Inl (ValidationError es), [])))
       \<and> (upper lib t = ascii ''SMTP'' \<and> invalid_SMTP lib data \<longrightarrow>
            (\<exists>es. fields_SMTP lib data = Inl es
                \<and> check_connection lib nw data = (Inl (ValidationError es), [])))"
  using assms
  by (simp add: check_connection_def new_CheckRequestHTTP_def new_CheckRequestIMAP_def
      new_CheckRequestSMTP_def construct_then_raise
      isl_fields_HTTP [symmetric] isl_fields_IMAP [symmetric] isl_fields_SMTP [symmetric])

text \<open>
  The amended C1 at three requests: an HTTP request with no field but its type, an IMAP
  request whose port is a list, an SMTP request without host.
\<close>

theorem construction_failure_propagates_witness:
  "invalid_HTTP lib0 payload_http_empty
   \<and> check_connection lib0 net_ok payload_http_empty =
       (Inl (ValidationError [(ascii ''address'', Missing), (ascii ''port'', Missing)]), [])
   \<and> invalid_IMAP lib0 payload_imap_bad_port
   \<and> check_connection lib0 net_ok payload_imap_bad_port =
       (Inl (ValidationError [(ascii ''port'', Invalid)]), [])
   \<and> invalid_SMTP lib0 payload_smtp_no_host
   \<and> check_connection lib0 net_ok payload_smtp_no_host =
       (Inl (ValidationError [(ascii ''host'', Missing)]), [])"
proof -
  have g1: "get_type payload_http_empty = JStr (ascii ''http'')"
    by (simp add: get_type_def payload_http_empty_def)
  have u1: "upper lib0 (ascii ''http'') = ascii ''HTTP''"
    by (simp add: lib0_eval ascii_def)
  have i1: "invalid_HTTP lib0 payload_http_empty"
    by (simp add: invalid_HTTP_def absent_def payload_http_empty_def)
  have f1: "fields_HTTP lib0 payload_http_empty =
      Inl [(ascii ''address'', Missing), (ascii ''port'', Missing)]"
    by (simp add: fields_HTTP_def payload_http_empty_def lib0_eval)
  have g2: "get_type payload_imap_bad_port = JStr (ascii ''IMAP'')"
    by (simp add: get_type_def payload_imap_bad_port_def)
  have u2: "upper lib0 (ascii ''IMAP'') = ascii ''IMAP''"
    by (simp add: lib0_eval ascii_def)
  have i2: "invalid_IMAP lib0 payload_imap_bad_port"
    by (simp add: invalid_IMAP_def rejected_def payload_imap_bad_port_def lib0_eval)
  have f2: "fields_IMAP lib0 payload_imap_bad_port = Inl [(ascii ''port'', Invalid)]"
    by (simp add: fields_IMAP_def payload_imap_bad_port_def lib0_eval)
  have g3: "get_type payload_smtp_no_host = JStr (ascii ''Smtp'')"
    by (simp add: get_type_def payload_smtp_no_host_def)
  have u3: "upper lib0 (ascii ''Smtp'') = ascii ''SMTP''"
    by (simp add: lib0_eval ascii_def)
  have i3: "invalid_SMTP lib0 payload_smtp_no_host"
    by (simp add: invalid_SMTP_def absent_def payload_smtp_no_host_def)
  have f3: "fields_SMTP lib0 payload_smtp_no_host = Inl [(ascii ''host'', Missing)]"
    by (simp add: fields_SMTP_def payload_smtp_no_host_def lib0_eval)
  show ?thesis
    using construction_failure_propagates [OF g1, of lib0 net_ok]
      construction_failure_propagates [OF g2, of lib0 net_ok]
      construction_failure_propagates [OF g3, of lib0 net_ok]
    by (simp add: u1 u2 u3 i1 i2 i3 f1 f2 f3)
qed

section \<open>The dispatcher: unsupported types\<close>

text \<open>
  C6. For every request whose type, upper-cased, is none of "HTTP", "IMAP", "SMTP", the
  dispatcher returns the envelope with status "fail" and the error "Unsupported type "
  followed by the upper-cased type; no request model is constructed and no library call
  is made.
\<close>

theorem unsupported_type_envelope:
  assumes "get_type data = JStr t"
    and "upper lib t \<noteq> ascii ''HTTP''"
    and "upper lib t \<noteq> ascii ''IMAP''"
    and "upper lib t \<noteq> ascii ''SMTP''"
  shows "check_connection lib nw data =
           (Inr [(ascii ''status'', JStr (ascii ''fail'')),
                 (ascii ''error'', JStr (ascii ''Unsupported type '' @ upper lib t))], [])"
  using assms by (simp add: check_connection_def)

text \<open>C6 at the type "ftp".\<close>

theorem unsupported_type_envelope_witness:
  "get_type [ascii ''type'' \<mapsto> JStr (ascii ''ftp'')] = JStr (ascii ''ftp'')
   \<and> check_connection lib0 net_ok [ascii ''type'' \<mapsto> JStr (ascii ''ftp'')] =
           (Inr [(ascii ''status'', JStr (ascii ''fail'')),
                 (ascii ''error'', JStr (ascii ''Unsupported type FTP''))], [])"
proof -
  have g: "get_type [ascii ''type'' \<mapsto> JStr (ascii ''ftp'')] = JStr (ascii ''ftp'')"
    by (simp add: get_type_def)
  have u: "upper lib0 (ascii ''ftp'') = ascii ''FTP''"
    by (simp add: upper_def upper_cp_def ascii_def)
  show ?thesis
    using g unsupported_type_envelope [OF g, of lib0 net_ok]
    by (simp add: u) (simp add: ascii_def)
qed

section \<open>The dispatcher: selecting the probe\<close>

text \<open>
  C7. The dispatcher reads the \<open>type\<close> field, takes "HTTP" when it is absent, and
  upper-cases it before matching: for an absent type and for every case variant of
  "http", "imap" or "smtp", a request whose model can be constructed is handed to the
  corresponding probe handler, and the dispatcher returns that handler's envelope
  after exactly that handler's library calls.
\<close>

theorem dispatch_on_normalized_type:
  "(data (ascii ''type'') = None \<longrightarrow>
      get_type data = JStr (ascii ''HTTP'')
    \<and> (\<forall>req. new_CheckRequestHTTP lib data = Inr req \<longrightarrow>
          check_connection lib nw data =
            (Inr (fst (handle_http lib nw req)), snd (handle_http lib nw req))))
 \<and> (\<forall>t. get_type data = JStr t \<longrightarrow>
      (case_variant t (ascii ''http'') \<longrightarrow>
         upper lib t = ascii ''HTTP''
       \<and> (\<forall>req. new_CheckRequestHTTP lib data = Inr req \<longrightarrow>
             check_connection lib nw data =
               (Inr (fst (handle_http lib nw req)), snd (handle_http lib nw req))))
    \<and> (case_variant t (ascii ''imap'') \<longrightarrow>
         upper lib t = ascii ''IMAP''
       \<and> (\<forall>req. new_CheckRequestIMAP lib data = Inr req \<longrightarrow>
             check_connection lib nw data =
               (Inr (fst (handle_imap nw req)), snd (handle_imap nw req))))
    \<and> (case_variant t (ascii ''smtp'') \<longrightarrow>
         upper lib t = ascii ''SMTP''
       \<and> (\<forall>req. new_CheckRequestSMTP lib data = Inr req \<longrightarrow>
             check_connection lib nw data =
               (Inr (fst (handle_smtp lib nw req)), snd (handle_smtp lib nw req)))))"
proof -
  have up: "upper lib (ascii ''HTTP'') = ascii ''HTTP''"
    by (simp add: upper_def upper_cp_def ascii_def)
  have run: "construct_then (Inr req) h = (Inr (fst (h req)), snd (h req))"
    for req :: 'r and h :: "'r \<Rightarrow> envelope \<times> event list"
    by (simp add: construct_then_def split: prod.splits)
  show ?thesis
    by (auto simp: check_connection_def get_type_def up upper_http upper_imap upper_smtp run
        split: option.splits)
qed

text \<open>
  C7 at a request without type and at the types "hTtP", "Imap" and "sMTP": each is
  answered by its probe, as the envelope and the recorded calls show.
\<close>

theorem dispatch_on_normalized_type_witness:
  "payload_http_default (ascii ''type'') = None
   \<and> check_connection lib0 net_ok payload_http_default =
       (Inr [(ascii ''status'', JStr (ascii ''success'')), (ascii ''protocol'', JStr (ascii ''http'')),
             (ascii ''type'', JStr (ascii ''HTTP'')), (ascii ''code'', JInt 404),
             (ascii ''headers'', JDict []), (ascii ''body'', JStr (ascii ''Not Found''))],
        [HttpRequest (ascii ''GET'') (ascii ''http://example.org:80'') 5])
   \<and> case_variant (ascii ''hTtP'') (ascii ''http'')
   \<and> check_connection lib0 net_ok payload_http_mixed =
       (Inr [(ascii ''status'', JStr (ascii ''success'')), (ascii ''protocol'', JStr (ascii ''http'')),
             (ascii ''type'', JStr (ascii ''hTtP'')), (ascii ''code'', JInt 404),
             (ascii ''headers'', JDict []), (ascii ''body'', JStr (ascii ''Not Found''))],
        [HttpRequest (ascii ''GET'') (ascii ''http://example.org:80'') 5])
   \<and> case_variant (ascii ''Imap'') (ascii ''imap'')
   \<and> check_connection lib0 net_ok payload_imap_mixed =
       (Inr [(ascii ''status'', JStr (ascii ''success'')), (ascii ''type'', JStr (ascii ''Imap'')),
             (ascii ''protocol'', JStr (ascii ''imaps'')),
             (ascii ''message'', JStr (ascii ''IMAP connected!''))],
        [ImapOpen True (ascii ''mail.example.org'') 993, ImapWaitHello 5, ImapLogout 5])
   \<and> case_variant (ascii ''sMTP'') (ascii ''smtp'')
   \<and> check_connection lib0 net_ok payload_smtp_mixed =
       (Inr [(ascii ''status'', JStr (ascii ''success'')), (ascii ''type'', JStr (ascii ''sMTP'')),
             (ascii ''protocol'', JStr (ascii ''smtp'')), (ascii ''greeting_code'', JInt 220),
             (ascii ''greeting_message'', JStr (ascii ''ready'')),
             (ascii ''mode'', JStr (ascii ''PLAIN'')), (ascii ''validate_certs'', JBool True)],
        [CreateDefaultContext, SmtpNew (ascii ''mail.example.org'') 25 False 5,
         SmtpConnect \<lparr>check_hostname = True, verify_mode = CERT_REQUIRED\<rparr>, SmtpQuit])"
proof -
  let ?h = "\<lparr>http_type = ascii ''HTTP'', http_address = ascii ''example.org'', http_port = 80,
      http_timeout = 5, http_method = ascii ''GET'', http_ssl = False\<rparr>"
  let ?i = "\<lparr>imap_type = ascii ''Imap'', imap_host = ascii ''mail.example.org'', imap_port = 993,
      imap_ssl = True, imap_timeout = 5, imap_username = None, imap_password = None\<rparr>"
  let ?s = "\<lparr>smtp_type = ascii ''sMTP'', smtp_host = ascii ''mail.example.org'', smtp_port = 25,
      smtp_timeout = 5, smtp_use_tls = False, smtp_start_tls = False, smtp_validate_certs = True,
      smtp_username = None, smtp_password = None\<rparr>"
  have a: "payload_http_default (ascii ''type'') = None"
    by (simp add: payload_http_default_def)
  have g1: "get_type payload_http_mixed = JStr (ascii ''hTtP'')"
    by (simp add: get_type_def payload_http_mixed_def)
  have g2: "get_type payload_imap_mixed = JStr (ascii ''Imap'')"
    by (simp add: get_type_def payload_imap_mixed_def)
  have g3: "get_type payload_smtp_mixed = JStr (ascii ''sMTP'')"
    by (simp add: get_type_def payload_smtp_mixed_def)
  have c1: "case_variant (ascii ''hTtP'') (ascii ''http'')"
    and c2: "case_variant (ascii ''Imap'') (ascii ''imap'')"
    and c3: "case_variant (ascii ''sMTP'') (ascii ''smtp'')"
    by (simp_all add: case_variant_def same_letter_def ascii_def)
  have n0: "new_CheckRequestHTTP lib0 payload_http_default = Inr ?h"
    by (simp add: new_CheckRequestHTTP_def fields_HTTP_def payload_http_default_def lib0_eval)
  have n1: "new_CheckRequestHTTP lib0 payload_http_mixed = Inr (?h\<lparr>http_type := ascii ''hTtP''\<rparr>)"
    by (simp add: new_CheckRequestHTTP_def fields_HTTP_def payload_http_mixed_def lib0_eval)
  have n2: "new_CheckRequestIMAP lib0 payload_imap_mixed = Inr ?i"
    by (simp add: new_CheckRequestIMAP_def fields_IMAP_def payload_imap_mixed_def lib0_eval)
  have n3: "new_CheckRequestSMTP lib0 payload_smtp_mixed = Inr ?s"
    by (simp add: new_CheckRequestSMTP_def fields_SMTP_def payload_smtp_mixed_def lib0_eval)
  have u: "upper lib0 (ascii ''GET'') = ascii ''GET''"
    by (simp add: lib0_eval ascii_def)
  have p: "str_int 80 = ascii ''80''"
    by (simp add: str_int_def digits10.simps ascii_def)
  have url: "ascii ''http'' @ ascii ''://'' @ ascii ''example.org'' @ ascii '':'' @ ascii ''80''
      = ascii ''http://example.org:80''"
    "ascii ''imap'' @ ascii ''s'' = ascii ''imaps''"
    by (simp_all add: ascii_def)
  have r: "http_request net_ok m x tm =
      Inr \<lparr>status_code = 404, headers = [], resp_text = ascii ''Not Found''\<rparr>" for m x tm
    by (simp add: net_ok_def)
  show ?thesis
    using dispatch_on_normalized_type [of payload_http_default lib0 net_ok]
      dispatch_on_normalized_type [of payload_http_mixed lib0 net_ok]
      dispatch_on_normalized_type [of payload_imap_mixed lib0 net_ok]
      dispatch_on_normalized_type [of payload_smtp_mixed lib0 net_ok]
    by (simp add: a g1 g2 g3 c1 c2 c3 n0 n1 n2 n3 probe_eval handle_http_def http_url_def
        http_protocol_def u p url r)
qed

section \<open>The HTTP probe\<close>

text \<open>
  C2. Whenever the client returns a response, the HTTP probe reports status "success"
  with the response's status code under \<open>code\<close>, whatever the code is; the failure
  envelope (status "fail", the request's type, the text of the exception) is produced
  exactly when the request raises.
\<close>

theorem http_status_code_is_not_failure:
  fixes lib nw data
  defines "r \<equiv> http_request nw (upper lib (http_method data)) (http_url data) (http_timeout data)"
  shows "(\<forall>response. r = Inr response \<longrightarrow>
            map_of (fst (handle_http lib nw data)) (ascii ''status'') = Some (JStr (ascii ''success''))
          \<and> map_of (fst (handle_http lib nw data)) (ascii ''code'') = Some (JInt (status_code response)))
       \<and> (map_of (fst (handle_http lib nw data)) (ascii ''status'') = Some (JStr (ascii ''fail''))
            \<longleftrightarrow> (\<exists>e. r = Inl e))
       \<and> (\<forall>e. r = Inl e \<longrightarrow>
            fst (handle_http lib nw data) =
              [(ascii ''status'', JStr (ascii ''fail'')), (ascii ''type'', JStr (http_type data)),
               (ascii ''error'', JStr (str_fault e))])"
  unfolding r_def
  by (cases "http_request nw (upper lib (http_method data)) (http_url data) (http_timeout data)")
     (simp_all add: handle_http_def try_except_def fail_envelope_def)

text \<open>C2 at a server that answers 404.\<close>

theorem http_status_code_is_not_failure_witness:
  "map_of (fst (handle_http lib0 net_ok req443)) (ascii ''status'') = Some (JStr (ascii ''success''))
   \<and> map_of (fst (handle_http lib0 net_ok req443)) (ascii ''code'') = Some (JInt 404)"
proof -
  have r: "http_request net_ok (upper lib0 (http_method req443)) (http_url req443) (http_timeout req443)
        = Inr \<lparr>status_code = 404, headers = [], resp_text = ascii ''Not Found''\<rparr>"
    by (simp add: net_ok_def)
  show ?thesis
    using http_status_code_is_not_failure [of net_ok lib0 req443] r by simp
qed

text \<open>
  C5. The scheme of the HTTP probe is "https" exactly when the port is 443 or the ssl
  flag is set, and "http" otherwise; the one request goes to scheme://address:port, and
  a success envelope carries the scheme under \<open>protocol\<close>.
\<close>

theorem http_scheme_and_url:
  fixes lib nw data
  defines "scheme \<equiv> (if http_port data = 443 \<or> http_ssl data then ascii ''https'' else ascii ''http'')"
  shows "snd (handle_http lib nw data) =
           [HttpRequest (upper lib (http_method data))
              (scheme @ ascii ''://'' @ http_address data @ ascii '':'' @ str_int (http_port data))
              (http_timeout data)]
       \<and> (map_of (fst (handle_http lib nw data)) (ascii ''status'') = Some (JStr (ascii ''success''))
            \<longrightarrow> map_of (fst (handle_http lib nw data)) (ascii ''protocol'') = Some (JStr scheme))
       \<and> (scheme = ascii ''https'' \<longleftrightarrow> http_port data = 443 \<or> http_ssl data)"
  unfolding scheme_def
  by (cases "http_request nw (upper lib (http_method data)) (http_url data) (http_timeout data)")
     (simp_all add: handle_http_def try_except_def http_url_def http_protocol_def)

text \<open>C5 at port 443 without the ssl flag.\<close>

theorem http_scheme_and_url_witness:
  "snd (handle_http lib0 net_ok req443) =
     [HttpRequest (ascii ''GET'') (ascii ''https://example.org:443'') 5]
   \<and> map_of (fst (handle_http lib0 net_ok req443)) (ascii ''protocol'') = Some (JStr (ascii ''https''))"
proof -
  have s: "map_of (fst (handle_http lib0 net_ok req443)) (ascii ''status'') = Some (JStr (ascii ''success''))"
    by (simp add: handle_http_def try_except_def net_ok_def)
  have u: "upper lib0 (http_method req443) = ascii ''GET''"
    by (simp add: req443_def upper_def upper_cp_def ascii_def)
  have p: "http_port req443 = 443" "http_address req443 = ascii ''example.org''"
    "http_timeout req443 = 5"
    by (simp_all add: req443_def)
  have a: "ascii ''https'' @ ascii ''://'' @ ascii ''example.org'' @ ascii '':'' @ ascii ''443''
      = ascii ''https://example.org:443''"
    by (simp add: ascii_def)
  show ?thesis
    using http_scheme_and_url [of lib0 net_ok req443] s
    by (simp add: u p str_int_443 a)
qed

section \<open>The SMTP probe\<close>

text \<open>
  C3, as the specification states it, fails: the envelope of the mode conflict carries
  the type of the request as it was sent, so a request of type "smtp" gets the type
  "smtp", not "SMTP".
\<close>

theorem smtp_mode_conflict_type_counterexample:
  "fst (check_connection lib0 net_ok payload_smtp_conflict) =
     Inr [(ascii ''status'', JStr (ascii ''fail'')), (ascii ''type'', JStr (ascii ''smtp'')),
          (ascii ''error'', JStr mode_conflict_message)]
   \<and> fst (check_connection lib0 net_ok payload_smtp_conflict) \<noteq>
     Inr [(ascii ''status'', JStr (ascii ''fail'')), (ascii ''type'', JStr (ascii ''SMTP'')),
          (ascii ''error'', JStr mode_conflict_message)]"
  by (simp add: check_connection_def payload_smtp_conflict_def new_CheckRequestSMTP_def
      fields_SMTP_def handle_smtp_def fail_envelope_def lib0_eval ascii_def)

text \<open>
  C3 (amended). For every SMTP probe request with both use_tls and start_tls set, the
  probe returns at once, before building the TLS context or the SMTP client and without
  any network activity, the failure envelope with status "fail", the type field of the
  request as it was given, and the mode-conflict message.
\<close>

theorem smtp_mode_conflict:
  assumes "smtp_use_tls data" and "smtp_start_tls data"
  shows "handle_smtp lib nw data =
           ([(ascii ''status'', JStr (ascii ''fail'')), (ascii ''type'', JStr (smtp_type data)),
             (ascii ''error'', JStr mode_conflict_message)], [])"
  using assms by (simp add: handle_smtp_def fail_envelope_def)

text \<open>The amended C3 at a request of type "smtp" with both flags set.\<close>

theorem smtp_mode_conflict_witness:
  "smtp_use_tls req_conflict \<and> smtp_start_tls req_conflict \<and>
   handle_smtp lib0 net_ok req_conflict =
     ([(ascii ''status'', JStr (ascii ''fail'')), (ascii ''type'', JStr (ascii ''smtp'')),
       (ascii ''error'', JStr mode_conflict_message)], [])"
proof -
  have a: "smtp_use_tls req_conflict" and b: "smtp_start_tls req_conflict"
    by (simp_all add: req_conflict_def)
  have t: "smtp_type req_conflict = ascii ''smtp''"
    by (simp add: req_conflict_def)
  show ?thesis
    using a b smtp_mode_conflict [OF a b, of lib0 net_ok] by (simp add: t)
qed

text \<open>
  C8. A successful SMTP probe returns the payload with status "success", the type of the
  request, protocol "smtp", the code and the message of the server's greeting (bytes
  decoded as UTF-8 dropping what cannot be decoded, anything else as its text), the
  mode ("SMTPS" with use_tls, "SMTP+STARTTLS" with start_tls and without use_tls,
  "PLAIN" with neither) and the validate_certs flag of the request.
\<close>

theorem smtp_success_payload:
  assumes "map_of (fst (handle_smtp lib nw data)) (ascii ''status'') = Some (JStr (ascii ''success''))"
  shows "\<exists>code msg.
           smtp_connect nw (build_tls_ctx lib (smtp_validate_certs data)) = Inr (code, msg)
         \<and> fst (handle_smtp lib nw data) =
             [(ascii ''status'', JStr (ascii ''success'')),
              (ascii ''type'', JStr (smtp_type data)),
              (ascii ''protocol'', JStr (ascii ''smtp'')),
              (ascii ''greeting_code'', JInt code),
              (ascii ''greeting_message'',
                 JStr (case msg of Bytes bs \<Rightarrow> utf8_ignore lib bs | Other s \<Rightarrow> s)),
              (ascii ''mode'',
                 JStr (if smtp_use_tls data then ascii ''SMTPS''
                       else if smtp_start_tls data then ascii ''SMTP+STARTTLS''
                       else ascii ''PLAIN'')),
              (ascii ''validate_certs'', JBool (smtp_validate_certs data))]"
proof -
  let ?ctx = "build_tls_ctx lib (smtp_validate_certs data)"
  have nc: "\<not> (smtp_use_tls data \<and> smtp_start_tls data)"
    using assms by (auto simp: handle_smtp_def)
  note eq = handle_smtp_no_conflict [OF nc, of lib nw]
  have "\<exists>tr. smtp_session lib nw data ?ctx [CreateDefaultContext] =
      (Inr (fst (handle_smtp lib nw data)), tr)"
    unfolding eq
    by (rule try_except_success [where k = "ascii ''status''" and v = "JStr (ascii ''success'')"])
       (use assms eq in simp_all)
  then show ?thesis
    by (auto dest!: smtp_session_Inr simp: greeting_text_def smtp_mode_def)
qed

text \<open>
  C8 at one request for each mode, one of them greeted with bytes.
\<close>

theorem smtp_success_payload_witness:
  "fst (handle_smtp lib0 net_ok (req_smtp True False True None None)) =
     [(ascii ''status'', JStr (ascii ''success'')), (ascii ''type'', JStr (ascii ''SMTP'')),
      (ascii ''protocol'', JStr (ascii ''smtp'')), (ascii ''greeting_code'', JInt 220),
      (ascii ''greeting_message'', JStr (ascii ''ready'')),
      (ascii ''mode'', JStr (ascii ''SMTPS'')), (ascii ''validate_certs'', JBool True)]
   \<and> fst (handle_smtp lib0 net_bytes (req_smtp False True False None None)) =
     [(ascii ''status'', JStr (ascii ''success'')), (ascii ''type'', JStr (ascii ''SMTP'')),
      (ascii ''protocol'', JStr (ascii ''smtp'')), (ascii ''greeting_code'', JInt 220),
      (ascii ''greeting_message'', JStr (ascii ''ok'')),
      (ascii ''mode'', JStr (ascii ''SMTP+STARTTLS'')), (ascii ''validate_certs'', JBool False)]
   \<and> fst (handle_smtp lib0 net_ok (req_smtp False False True None None)) =
     [(ascii ''status'', JStr (ascii ''success'')), (ascii ''type'', JStr (ascii ''SMTP'')),
      (ascii ''protocol'', JStr (ascii ''smtp'')), (ascii ''greeting_code'', JInt 220),
      (ascii ''greeting_message'', JStr (ascii ''ready'')),
      (ascii ''mode'', JStr (ascii ''PLAIN'')), (ascii ''validate_certs'', JBool True)]"
proof -
  have nb: "smtp_new net_bytes h p b tm = Inr ()" "smtp_connect net_bytes c = Inr (220, Bytes [0x6F, 0x6B])"
    "smtp_starttls net_bytes c = Inr ()" "smtp_quit net_bytes = Inr ()" for h p b tm c
    by (simp_all add: net_bytes_def net_ok_def)
  have s1: "map_of (fst (handle_smtp lib0 net_ok (req_smtp True False True None None)))
      (ascii ''status'') = Some (JStr (ascii ''success''))"
    by (simp add: probe_eval)
  have s2: "map_of (fst (handle_smtp lib0 net_bytes (req_smtp False True False None None)))
      (ascii ''status'') = Some (JStr (ascii ''success''))"
    by (simp add: probe_eval nb)
  have s3: "map_of (fst (handle_smtp lib0 net_ok (req_smtp False False True None None)))
      (ascii ''status'') = Some (JStr (ascii ''success''))"
    by (simp add: probe_eval)
  have b: "utf8_ignore lib0 [0x6F, 0x6B] = ascii ''ok''"
    by (simp add: lib0_def ascii_def)
  show ?thesis
    using smtp_success_payload [OF s1] smtp_success_payload [OF s2] smtp_success_payload [OF s3]
    by (auto simp: nb b)
qed

text \<open>
  C9. Every TLS context the SMTP probe hands to connect or STARTTLS is the default
  context when validate_certs is true, and the same context with check_hostname false
  and verify mode CERT_NONE when it is false; connect receives it once the client
  object exists, STARTTLS once the connection is greeted.
\<close>

theorem smtp_tls_context:
  fixes lib nw data
  defines "ctx \<equiv> (if smtp_validate_certs data then create_default_context lib
                   else create_default_context lib\<lparr>check_hostname := False, verify_mode := CERT_NONE\<rparr>)"
  shows "(\<forall>c. SmtpConnect c \<in> set (snd (handle_smtp lib nw data))
            \<or> SmtpStarttls c \<in> set (snd (handle_smtp lib nw data)) \<longrightarrow> c = ctx)
       \<and> (\<not> smtp_validate_certs data \<longrightarrow> \<not> check_hostname ctx \<and> verify_mode ctx = CERT_NONE)
       \<and> (\<not> (smtp_use_tls data \<and> smtp_start_tls data)
            \<and> smtp_new nw (smtp_host data) (smtp_port data) (smtp_use_tls data) (smtp_timeout data) = Inr ()
          \<longrightarrow> SmtpConnect ctx \<in> set (snd (handle_smtp lib nw data)))
       \<and> (smtp_start_tls data \<and> \<not> smtp_use_tls data
            \<and> smtp_new nw (smtp_host data) (smtp_port data) (smtp_use_tls data) (smtp_timeout data) = Inr ()
            \<and> \<not> isl (smtp_connect nw ctx)
          \<longrightarrow> SmtpStarttls ctx \<in> set (snd (handle_smtp lib nw data)))"
proof -
  have ctx: "build_tls_ctx lib (smtp_validate_certs data) = ctx"
    by (simp add: ctx_def build_tls_ctx_eq)
  have only: "\<forall>c. SmtpConnect c \<in> set (snd (handle_smtp lib nw data))
            \<or> SmtpStarttls c \<in> set (snd (handle_smtp lib nw data)) \<longrightarrow> c = ctx"
    using handle_smtp_events [of lib nw data]
    by (auto simp: ctx smtp_events_def split: if_splits)
  have relaxed: "\<not> smtp_validate_certs data \<longrightarrow> \<not> check_hostname ctx \<and> verify_mode ctx = CERT_NONE"
    by (simp add: ctx_def)
  have conn: "SmtpConnect ctx \<in> set (snd (handle_smtp lib nw data))"
    if "\<not> (smtp_use_tls data \<and> smtp_start_tls data)"
      and "smtp_new nw (smtp_host data) (smtp_port data) (smtp_use_tls data) (smtp_timeout data) = Inr ()"
    using that
    apply (simp add: handle_smtp_no_conflict smtp_session_def ctx split del: if_split)
    apply (rule performed_stays)
    apply (intro extends_intros)
    done
  have upgrade: "SmtpStarttls ctx \<in> set (snd (handle_smtp lib nw data))"
    if "smtp_start_tls data" "\<not> smtp_use_tls data"
      and "smtp_new nw (smtp_host data) (smtp_port data) (smtp_use_tls data) (smtp_timeout data) = Inr ()"
      and "\<not> isl (smtp_connect nw ctx)"
  proof -
    from that(4) obtain code msg where c: "smtp_connect nw ctx = Inr (code, msg)"
      by (cases "smtp_connect nw ctx") auto
    show ?thesis
      using that(1-3)
      apply (simp add: handle_smtp_no_conflict smtp_session_def ctx c split del: if_split)
      apply (rule performed_stays)
      apply (intro extends_intros)
      done
  qed
  from only relaxed conn upgrade show ?thesis by blast
qed

text \<open>
  C9 at a STARTTLS request, without and with certificate validation.
\<close>

theorem smtp_tls_context_witness:
  "snd (handle_smtp lib0 net_ok (req_smtp False True False None None)) =
     [CreateDefaultContext, SmtpNew (ascii ''mail.example.org'') 587 False 5,
      SmtpConnect \<lparr>check_hostname = False, verify_mode = CERT_NONE\<rparr>,
      SmtpStarttls \<lparr>check_hostname = False, verify_mode = CERT_NONE\<rparr>, SmtpQuit]
   \<and> SmtpStarttls \<lparr>check_hostname = True, verify_mode = CERT_REQUIRED\<rparr>
       \<in> set (snd (handle_smtp lib0 net_ok (req_smtp False True True None None)))"
proof -
  have e: "snd (handle_smtp lib0 net_ok (req_smtp False True False None None)) =
     [CreateDefaultContext, SmtpNew (ascii ''mail.example.org'') 587 False 5,
      SmtpConnect \<lparr>check_hostname = False, verify_mode = CERT_NONE\<rparr>,
      SmtpStarttls \<lparr>check_hostname = False, verify_mode = CERT_NONE\<rparr>, SmtpQuit]"
    by (simp add: probe_eval)
  show ?thesis
    using smtp_tls_context [of lib0 net_ok "req_smtp False True False None None"]
      smtp_tls_context [of lib0 net_ok "req_smtp False True True None None"]
    by (simp add: e)
qed

section \<open>The IMAP probe\<close>

text \<open>
  C4. When opening the connection, the greeting and (with both credentials) the login
  succeed, the IMAP probe returns the success envelope whatever the logout step does,
  an exception or an expired timeout included; a fault in one of the three earlier
  steps gives the failure envelope with the text of that fault.
\<close>

theorem imap_logout_failure_is_swallowed:
  fixes nw :: net and data :: CheckRequestIMAP and logout :: "rat \<Rightarrow> fault + unit"
  defines "opened \<equiv> imap_open nw (imap_ssl data) (imap_host data) (imap_port data)"
    and "greeted \<equiv> imap_wait_hello nw (imap_timeout data)"
    and "creds \<equiv> truthy (imap_username data) \<and> truthy (imap_password data)"
    and "logged_in \<equiv>
           imap_login nw (the (imap_username data)) (the (imap_password data)) (imap_timeout data)"
  shows "(opened = Inr () \<and> greeted = Inr () \<and> (creds \<longrightarrow> logged_in = Inr ()) \<longrightarrow>
            fst (handle_imap (nw\<lparr>imap_logout := logout\<rparr>) data) =
              [(ascii ''status'', JStr (ascii ''success'')),
               (ascii ''type'', JStr (imap_type data)),
               (ascii ''protocol'', JStr (ascii ''imap'' @ (if imap_ssl data then ascii ''s'' else []))),
               (ascii ''message'', JStr (ascii ''IMAP connected!''))])
       \<and> (\<forall>e. opened = Inl e
              \<or> (opened = Inr () \<and> greeted = Inl e)
              \<or> (opened = Inr () \<and> greeted = Inr () \<and> creds \<and> logged_in = Inl e) \<longrightarrow>
            fst (handle_imap (nw\<lparr>imap_logout := logout\<rparr>) data) =
              [(ascii ''status'', JStr (ascii ''fail'')),
               (ascii ''type'', JStr (imap_type data)),
               (ascii ''error'', JStr (str_fault e))])"
  unfolding opened_def greeted_def creds_def logged_in_def
  by (auto simp: handle_imap_def imap_session_def try_except_def fail_envelope_def)

text \<open>
  C4 at a logout that times out after a successful login, and at a rejected login.
\<close>

theorem imap_logout_failure_is_swallowed_witness:
  "fst (handle_imap (net_ok\<lparr>imap_logout := (\<lambda>tm. Inl (Fault (ascii ''timed out'')))\<rparr>)
          (req_imap (Some (ascii ''user'')) (Some (ascii ''secret'')))) =
     [(ascii ''status'', JStr (ascii ''success'')),
      (ascii ''type'', JStr (ascii ''IMAP'')),
      (ascii ''protocol'', JStr (ascii ''imaps'')),
      (ascii ''message'', JStr (ascii ''IMAP connected!''))]
   \<and> fst (handle_imap (net_login_rejected\<lparr>imap_logout := (\<lambda>tm. Inr ())\<rparr>)
          (req_imap (Some (ascii ''user'')) (Some (ascii ''secret'')))) =
     [(ascii ''status'', JStr (ascii ''fail'')),
      (ascii ''type'', JStr (ascii ''IMAP'')),
      (ascii ''error'', JStr (ascii ''bad credentials''))]"
proof -
  have rej: "imap_open net_login_rejected b h p = Inr ()"
    "imap_wait_hello net_login_rejected tm = Inr ()"
    "imap_login net_login_rejected u pw tm = Inl (Fault (ascii ''bad credentials''))"
    for b h p tm u pw
    by (simp_all add: net_login_rejected_def net_ok_def)
  have t: "ascii ''user'' \<noteq> []" "ascii ''secret'' \<noteq> []"
    by (simp_all add: ascii_def)
  have s: "ascii ''imap'' @ ascii ''s'' = ascii ''imaps''"
    by (simp add: ascii_def)
  show ?thesis
    using imap_logout_failure_is_swallowed
        [of net_ok "req_imap (Some (ascii ''user'')) (Some (ascii ''secret''))"
            "\<lambda>tm. Inl (Fault (ascii ''timed out''))"]
      imap_logout_failure_is_swallowed
        [of net_login_rejected "req_imap (Some (ascii ''user'')) (Some (ascii ''secret''))"
            "\<lambda>tm. Inr ()"]
    by (simp add: rej t s)
qed

section \<open>Credentials\<close>

text \<open>
  C10. In the IMAP and in the SMTP probe the login is attempted exactly when username
  and password are both truthy: with a credential that is null or the empty string no
  login call is ever made and the probe can still succeed, and with both present the
  login call is made as soon as the steps before it have succeeded.
\<close>

theorem login_only_with_both_credentials:
  fixes lib :: pylib and nw :: net and idata :: CheckRequestIMAP and sdata :: CheckRequestSMTP
  defines "icreds \<equiv> truthy (imap_username idata) \<and> truthy (imap_password idata)"
    and "screds \<equiv> truthy (smtp_username sdata) \<and> truthy (smtp_password sdata)"
    and "ctx \<equiv> build_tls_ctx lib (smtp_validate_certs sdata)"
  shows "(\<not> icreds \<longrightarrow> (\<forall>ev \<in> set (snd (handle_imap nw idata)). \<not> is_login ev))
       \<and> (imap_open nw (imap_ssl idata) (imap_host idata) (imap_port idata) = Inr ()
            \<and> imap_wait_hello nw (imap_timeout idata) = Inr () \<longrightarrow>
            (icreds \<longrightarrow>
               ImapLogin (the (imap_username idata)) (the (imap_password idata)) (imap_timeout idata)
                 \<in> set (snd (handle_imap nw idata)))
          \<and> (\<not> icreds \<longrightarrow>
               map_of (fst (handle_imap nw idata)) (ascii ''status'') = Some (JStr (ascii ''success''))))
       \<and> (\<not> screds \<longrightarrow> (\<forall>ev \<in> set (snd (handle_smtp lib nw sdata)). \<not> is_login ev))
       \<and> (\<not> (smtp_use_tls sdata \<and> smtp_start_tls sdata)
            \<and> smtp_new nw (smtp_host sdata) (smtp_port sdata) (smtp_use_tls sdata) (smtp_timeout sdata)
                = Inr ()
            \<and> \<not> isl (smtp_connect nw ctx)
            \<and> (smtp_start_tls sdata \<longrightarrow> smtp_starttls nw ctx = Inr ()) \<longrightarrow>
            (screds \<longrightarrow>
               SmtpLogin (the (smtp_username sdata)) (the (smtp_password sdata))
                 \<in> set (snd (handle_smtp lib nw sdata)))
          \<and> (\<not> screds \<and> smtp_quit nw = Inr () \<longrightarrow>
               map_of (fst (handle_smtp lib nw sdata)) (ascii ''status'')
                 = Some (JStr (ascii ''success''))))"
proof -
  have i1: "\<forall>ev \<in> set (snd (handle_imap nw idata)). \<not> is_login ev" if "\<not> icreds"
    using handle_imap_events [of nw idata] that
    by (auto simp: imap_events_def icreds_def)
  have i2: "ImapLogin (the (imap_username idata)) (the (imap_password idata)) (imap_timeout idata)
                 \<in> set (snd (handle_imap nw idata))"
    if "imap_open nw (imap_ssl idata) (imap_host idata) (imap_port idata) = Inr ()"
      and "imap_wait_hello nw (imap_timeout idata) = Inr ()" and icreds
    using that unfolding icreds_def
    apply (simp add: handle_imap_def imap_session_def split del: if_split)
    apply (rule performed_stays)
    apply (intro extends_intros)
    done
  have i3: "map_of (fst (handle_imap nw idata)) (ascii ''status'') = Some (JStr (ascii ''success''))"
    if "imap_open nw (imap_ssl idata) (imap_host idata) (imap_port idata) = Inr ()"
      and "imap_wait_hello nw (imap_timeout idata) = Inr ()" and "\<not> icreds"
    using that unfolding icreds_def
    by (auto simp: handle_imap_def imap_session_def try_except_def)
  have s1: "\<forall>ev \<in> set (snd (handle_smtp lib nw sdata)). \<not> is_login ev" if "\<not> screds"
    using handle_smtp_events [of lib nw sdata] that
    by (auto simp: smtp_events_def screds_def split: if_splits)
  have s23: "(screds \<longrightarrow>
               SmtpLogin (the (smtp_username sdata)) (the (smtp_password sdata))
                 \<in> set (snd (handle_smtp lib nw sdata)))
          \<and> (\<not> screds \<and> smtp_quit nw = Inr () \<longrightarrow>
               map_of (fst (handle_smtp lib nw sdata)) (ascii ''status'')
                 = Some (JStr (ascii ''success'')))"
    if nc: "\<not> (smtp_use_tls sdata \<and> smtp_start_tls sdata)"
      and new: "smtp_new nw (smtp_host sdata) (smtp_port sdata) (smtp_use_tls sdata) (smtp_timeout sdata)
                = Inr ()"
      and con: "\<not> isl (smtp_connect nw ctx)"
      and tls: "smtp_start_tls sdata \<longrightarrow> smtp_starttls nw ctx = Inr ()"
  proof -
    from con obtain code msg where c: "smtp_connect nw ctx = Inr (code, msg)"
      by (cases "smtp_connect nw ctx") auto
    have a: "SmtpLogin (the (smtp_username sdata)) (the (smtp_password sdata))
                 \<in> set (snd (handle_smtp lib nw sdata))" if screds
      using that new tls unfolding screds_def
      apply (cases "smtp_start_tls sdata")
       apply (simp_all add: handle_smtp_no_conflict [OF nc] smtp_session_def ctx_def [symmetric] c
          split del: if_split)
       apply (rule performed_stays, intro extends_intros)+
      done
    have b: "map_of (fst (handle_smtp lib nw sdata)) (ascii ''status'')
                 = Some (JStr (ascii ''success''))" if "\<not> screds" "smtp_quit nw = Inr ()"
      using that new tls unfolding screds_def
      by (cases "smtp_start_tls sdata")
         (auto simp: handle_smtp_no_conflict [OF nc] smtp_session_def ctx_def [symmetric] c
            try_except_def)
    from a b show ?thesis by blast
  qed
  from i1 i2 i3 s1 s23 show ?thesis by blast
qed

text \<open>
  C10 with an empty username, with a missing password and with both credentials.
\<close>

theorem login_only_with_both_credentials_witness:
  "snd (handle_imap net_ok (req_imap (Some []) (Some (ascii ''secret'')))) =
     [ImapOpen True (ascii ''mail.example.org'') 993, ImapWaitHello 5, ImapLogout 5]
   \<and> map_of (fst (handle_imap net_ok (req_imap (Some []) (Some (ascii ''secret'')))))
        (ascii ''status'') = Some (JStr (ascii ''success''))
   \<and> ImapLogin (ascii ''user'') (ascii ''secret'') 5
        \<in> set (snd (handle_imap net_ok (req_imap (Some (ascii ''user'')) (Some (ascii ''secret'')))))
   \<and> snd (handle_smtp lib0 net_ok (req_smtp False False True (Some (ascii ''user'')) None)) =
     [CreateDefaultContext, SmtpNew (ascii ''mail.example.org'') 587 False 5,
      SmtpConnect \<lparr>check_hostname = True, verify_mode = CERT_REQUIRED\<rparr>, SmtpQuit]
   \<and> map_of (fst (handle_smtp lib0 net_ok (req_smtp False False True (Some (ascii ''user'')) None)))
        (ascii ''status'') = Some (JStr (ascii ''success''))
   \<and> SmtpLogin (ascii ''user'') (ascii ''secret'')
        \<in> set (snd (handle_smtp lib0 net_ok
              (req_smtp False False True (Some (ascii ''user'')) (Some (ascii ''secret'')))))"
proof -
  have t: "ascii ''user'' \<noteq> []" "ascii ''secret'' \<noteq> []"
    by (simp_all add: ascii_def)
  have e1: "snd (handle_imap net_ok (req_imap (Some []) (Some (ascii ''secret'')))) =
     [ImapOpen True (ascii ''mail.example.org'') 993, ImapWaitHello 5, ImapLogout 5]"
    by (simp add: probe_eval)
  have e2: "snd (handle_smtp lib0 net_ok (req_smtp False False True (Some (ascii ''user'')) None)) =
     [CreateDefaultContext, SmtpNew (ascii ''mail.example.org'') 587 False 5,
      SmtpConnect \<lparr>check_hostname = True, verify_mode = CERT_REQUIRED\<rparr>, SmtpQuit]"
    by (simp add: probe_eval)
  show ?thesis
    using login_only_with_both_credentials
        [where idata = "req_imap (Some []) (Some (ascii ''secret''))"
           and sdata = "req_smtp False False True (Some (ascii ''user'')) None"
           and nw = net_ok and lib = lib0]
      login_only_with_both_credentials
        [where idata = "req_imap (Some (ascii ''user'')) (Some (ascii ''secret''))"
           and sdata = "req_smtp False False True (Some (ascii ''user'')) (Some (ascii ''secret''))"
           and nw = net_ok and lib = lib0]
    by (simp add: t e1 e2)
qed

end
